theory Spec2Isabelle
  imports Main "HOL-Library.Word"
begin

section \<open>FrameSequence.h: frames, slots and the frame sequence\<close>

text \<open>
  The header declares two classes. \<open>FrameDataPair\<close> binds a reference-counted
  \<open>imgFrame\<close> pointer (\<open>mFrame\<close>) to a raw data pointer (\<open>mFrameData\<close>); a non-null
  \<open>mFrameData\<close> means that the pair owes its frame one \<open>UnlockImageData\<close>.
  \<open>FrameSequence\<close> is an array of such pairs.

  The objects live at addresses and the methods take \<open>this\<close>, since two of them compare
  \<open>&aOther\<close> with \<open>this\<close>. A method returns the memory after the call, or the error
  that stops the program. Reference counts of frames are not part of the model: none of
  the methods reads them.
\<close>

subsection \<open>Addresses, errors, calls\<close>

type_synonym frame_ref = nat
type_synonym slot_ref = nat

text \<open>A \<open>uint8_t*\<close>; \<open>0\<close> is \<open>nullptr\<close>, so \<open>if (mFrameData)\<close> is \<open>mFrameData \<noteq> nullptr\<close>.\<close>

type_synonym data_ptr = nat

abbreviation nullptr :: data_ptr where
  "nullptr \<equiv> 0"

datatype error =
    NullDeref          \<comment> \<open>\<open>mFrame->\<close> on an empty \<open>nsRefPtr\<close>\<close>
  | AssertionFailure   \<comment> \<open>a \<open>MOZ_ASSERT\<close> that does not hold\<close>
  | BadAddress         \<comment> \<open>a method on an address that holds no object, or a
                           constructor on an address that holds one\<close>
  | OutOfRange         \<comment> \<open>a frame number outside the sequence\<close>

text \<open>What a frame is asked to do, in the order of the requests.\<close>

datatype call = LockOk frame_ref | LockFailed frame_ref | Unlock frame_ref

subsection \<open>The frame\<close>

text \<open>
  Modelled from the spec: \<open>imgFrame\<close> (\<open>imgFrame.h\<close> is included by the header and is
  not among the sources). The frame is the black box of the spec: \<open>lock\<close> pins the buffer
  and may fail, \<open>unlock\<close> releases one lock, \<open>is_paletted\<close> selects the accessor,
  \<open>palette_data\<close> and \<open>image_data\<close> give the pointers. As the spec's mock frame does, the
  model counts the calls: every call is appended to \<open>calls\<close>.
\<close>

record imgFrame =
  lock_succeeds :: bool
  is_paletted :: bool
  palette_data :: data_ptr
  image_data :: data_ptr

text \<open>
  Modelled from the spec: \<open>nsRefPtr<imgFrame>\<close>, \<open>Move\<close> and \<open>MOZ_ASSERT\<close>, which the
  header uses and other headers define. The handle is either empty or holds one frame
  (\<open>None\<close> or \<open>Some\<close>); moving out of a handle leaves it empty, and so does \<open>forget()\<close>,
  which returns the frame to the caller; a programming error such as a move to self is
  fatal, signalled through the assertion.
\<close>

record FrameDataPair =
  mFrame :: "frame_ref option"
  mFrameData :: data_ptr

record world =
  slots :: "slot_ref \<rightharpoonup> FrameDataPair"
  frames :: "frame_ref \<Rightarrow> imgFrame"
  calls :: "call list"

text \<open>
  Modelled from the spec: the methods of \<open>imgFrame\<close> that the header calls. \<open>lock()\<close>
  succeeds or fails, as the frame decides; \<open>unlock()\<close> releases one lock; the three
  accessors read the frame.
\<close>

definition LockImageData :: "frame_ref \<Rightarrow> world \<Rightarrow> bool \<times> world" where
  "LockImageData f w =
     (if lock_succeeds (frames w f)
      then (True, w\<lparr>calls := calls w @ [LockOk f]\<rparr>)
      else (False, w\<lparr>calls := calls w @ [LockFailed f]\<rparr>))"

definition UnlockImageData :: "frame_ref \<Rightarrow> world \<Rightarrow> world" where
  "UnlockImageData f w = w\<lparr>calls := calls w @ [Unlock f]\<rparr>"

definition GetIsPaletted :: "frame_ref \<Rightarrow> world \<Rightarrow> bool" where
  "GetIsPaletted f w = is_paletted (frames w f)"

definition GetPaletteData :: "frame_ref \<Rightarrow> world \<Rightarrow> data_ptr" where
  "GetPaletteData f w = palette_data (frames w f)"

definition GetImageData :: "frame_ref \<Rightarrow> world \<Rightarrow> data_ptr" where
  "GetImageData f w = image_data (frames w f)"

text \<open>The locks of a frame that no unlock has answered yet.\<close>

definition outstanding :: "world \<Rightarrow> frame_ref \<Rightarrow> int" where
  "outstanding w f = int (count_list (calls w) (LockOk f)) - int (count_list (calls w) (Unlock f))"

subsection \<open>FrameDataPair\<close>

text \<open>Storage: a constructor needs an address that holds no object; \<open>put\<close> writes the
  fields of the object at an address.\<close>

definition new_object :: "slot_ref \<Rightarrow> FrameDataPair \<Rightarrow> world \<Rightarrow> error + world" where
  "new_object this s w =
     (if slots w this = None then Inr (w\<lparr>slots := (slots w)(this \<mapsto> s)\<rparr>) else Inl BadAddress)"

definition put :: "slot_ref \<Rightarrow> FrameDataPair \<Rightarrow> world \<Rightarrow> world" where
  "put this s w = w\<lparr>slots := (slots w)(this \<mapsto> s)\<rparr>"

text \<open>\<open>explicit FrameDataPair(imgFrame* frame)\<close> and \<open>FrameDataPair()\<close>.\<close>

definition FrameDataPair_frame :: "slot_ref \<Rightarrow> frame_ref option \<Rightarrow> world \<Rightarrow> error + world" where
  "FrameDataPair_frame this frame w = new_object this \<lparr>mFrame = frame, mFrameData = nullptr\<rparr> w"

definition FrameDataPair_default :: "slot_ref \<Rightarrow> world \<Rightarrow> error + world" where
  "FrameDataPair_default this w = new_object this \<lparr>mFrame = None, mFrameData = nullptr\<rparr> w"

text \<open>\<open>FrameDataPair(const FrameDataPair& aOther)\<close>.\<close>

definition FrameDataPair_copy :: "slot_ref \<Rightarrow> slot_ref \<Rightarrow> world \<Rightarrow> error + world" where
  "FrameDataPair_copy this aOther w =
     (case slots w aOther of
        None \<Rightarrow> Inl BadAddress
      | Some other \<Rightarrow> new_object this \<lparr>mFrame = mFrame other, mFrameData = nullptr\<rparr> w)"

text \<open>\<open>FrameDataPair(FrameDataPair&& aOther)\<close>. Moving an \<open>nsRefPtr\<close> leaves the source
  pointer null.\<close>

definition FrameDataPair_move :: "slot_ref \<Rightarrow> slot_ref \<Rightarrow> world \<Rightarrow> error + world" where
  "FrameDataPair_move this aOther w =
     (case slots w aOther of
        None \<Rightarrow> Inl BadAddress
      | Some other \<Rightarrow>
          (case new_object this \<lparr>mFrame = mFrame other, mFrameData = mFrameData other\<rparr> w of
             Inl e \<Rightarrow> Inl e
           | Inr w1 \<Rightarrow> Inr (put aOther \<lparr>mFrame = None, mFrameData = nullptr\<rparr> w1)))"

text \<open>\<open>if (mFrameData) { mFrame->UnlockImageData(); }\<close>: the body of the destructor, and
  the first statement of \<open>Forget\<close> and of \<open>SetFrame\<close>.\<close>

definition unlock_if_data :: "FrameDataPair \<Rightarrow> world \<Rightarrow> error + world" where
  "unlock_if_data s w =
     (if mFrameData s \<noteq> nullptr
      then (case mFrame s of None \<Rightarrow> Inl NullDeref | Some f \<Rightarrow> Inr (UnlockImageData f w))
      else Inr w)"

text \<open>\<open>~FrameDataPair()\<close>: the body, then the object is gone.\<close>

definition FrameDataPair_dtor :: "slot_ref \<Rightarrow> world \<Rightarrow> error + world" where
  "FrameDataPair_dtor this w =
     (case slots w this of
        None \<Rightarrow> Inl BadAddress
      | Some s \<Rightarrow>
          (case unlock_if_data s w of
             Inl e \<Rightarrow> Inl e
           | Inr w1 \<Rightarrow> Inr (w1\<lparr>slots := (slots w1)(this := None)\<rparr>)))"

text \<open>\<open>operator=(const FrameDataPair& aOther)\<close>.\<close>

definition copy_assign :: "slot_ref \<Rightarrow> slot_ref \<Rightarrow> world \<Rightarrow> error + world" where
  "copy_assign this aOther w =
     (case slots w this of
        None \<Rightarrow> Inl BadAddress
      | Some s \<Rightarrow>
          (case slots w aOther of
             None \<Rightarrow> Inl BadAddress
           | Some other \<Rightarrow>
               if aOther \<noteq> this
               then Inr (put this \<lparr>mFrame = mFrame other, mFrameData = nullptr\<rparr> w)
               else Inr w))"

text \<open>\<open>operator=(FrameDataPair&& aOther)\<close>, with its \<open>MOZ_ASSERT(&aOther != this)\<close>.\<close>

definition move_assign :: "slot_ref \<Rightarrow> slot_ref \<Rightarrow> world \<Rightarrow> error + world" where
  "move_assign this aOther w =
     (case slots w this of
        None \<Rightarrow> Inl BadAddress
      | Some s \<Rightarrow>
          (case slots w aOther of
             None \<Rightarrow> Inl BadAddress
           | Some other \<Rightarrow>
               if aOther = this then Inl AssertionFailure
               else Inr (put aOther \<lparr>mFrame = None, mFrameData = nullptr\<rparr>
                          (put this \<lparr>mFrame = mFrame other, mFrameData = mFrameData other\<rparr> w))))"

definition LockAndGetData :: "slot_ref \<Rightarrow> world \<Rightarrow> error + world" where
  "LockAndGetData this w =
     (case slots w this of
        None \<Rightarrow> Inl BadAddress
      | Some s \<Rightarrow>
          (case mFrame s of
             None \<Rightarrow> Inr w
           | Some f \<Rightarrow>
               (case LockImageData f w of
                  (ok, w1) \<Rightarrow>
                    if ok
                    then (if GetIsPaletted f w1
                          then Inr (put this (s\<lparr>mFrameData := GetPaletteData f w1\<rparr>) w1)
                          else Inr (put this (s\<lparr>mFrameData := GetImageData f w1\<rparr>) w1))
                    else Inr w1)))"

definition Forget :: "slot_ref \<Rightarrow> world \<Rightarrow> error + (frame_ref option \<times> world)" where
  "Forget this w =
     (case slots w this of
        None \<Rightarrow> Inl BadAddress
      | Some s \<Rightarrow>
          (case unlock_if_data s w of
             Inl e \<Rightarrow> Inl e
           | Inr w1 \<Rightarrow> Inr (mFrame s, put this \<lparr>mFrame = None, mFrameData = nullptr\<rparr> w1)))"

definition HasFrameData :: "slot_ref \<Rightarrow> world \<Rightarrow> error + bool" where
  "HasFrameData this w =
     (case slots w this of
        None \<Rightarrow> Inl BadAddress
      | Some s \<Rightarrow>
          if mFrameData s \<noteq> nullptr \<and> mFrame s = None then Inl AssertionFailure
          else Inr (mFrameData s \<noteq> nullptr))"

definition GetFrameData :: "slot_ref \<Rightarrow> world \<Rightarrow> error + data_ptr" where
  "GetFrameData this w =
     (case slots w this of None \<Rightarrow> Inl BadAddress | Some s \<Rightarrow> Inr (mFrameData s))"

definition GetFrame :: "slot_ref \<Rightarrow> world \<Rightarrow> error + frame_ref option" where
  "GetFrame this w =
     (case slots w this of None \<Rightarrow> Inl BadAddress | Some s \<Rightarrow> Inr (mFrame s))"

definition SetFrame :: "slot_ref \<Rightarrow> frame_ref option \<Rightarrow> world \<Rightarrow> error + world" where
  "SetFrame this frame w =
     (case slots w this of
        None \<Rightarrow> Inl BadAddress
      | Some s \<Rightarrow>
          (case unlock_if_data s w of
             Inl e \<Rightarrow> Inl e
           | Inr w1 \<Rightarrow> Inr (put this \<lparr>mFrame = frame, mFrameData = nullptr\<rparr> w1)))"

subsection \<open>FrameSequence\<close>

text \<open>The array \<open>nsTArray<FrameDataPair> mFrames\<close> holds its pairs by value, in order.\<close>

record FrameSequence =
  mFrames :: "FrameDataPair list"

text \<open>
  Modelled from the spec: \<open>FrameSequence::GetNumFrames\<close>, \<open>InsertFrame\<close> and
  \<open>RemoveFrame\<close>. The header declares them; their bodies are in \<open>FrameSequence.cpp\<close>,
  which is not among the sources. The spec: \<open>insert(index, frame)\<close> inserts a new slot
  bound to \<open>frame\<close> at \<open>index\<close>, shifting later slots up, for \<open>index <= size()\<close>;
  \<open>remove(index)\<close> destroys the slot at \<open>index\<close>, releasing any active view lock, and
  shifts later slots down, for \<open>index < size()\<close>; \<open>size()\<close> is the number of slots; an
  index out of range is fatal. The
  new slot is built by \<open>FrameDataPair(imgFrame*)\<close> and the removed one ends by the
  destructor's body, both from the header.
\<close>

definition GetNumFrames :: "FrameSequence \<Rightarrow> nat" where
  "GetNumFrames fs = length (mFrames fs)"

definition InsertFrame :: "32 word \<Rightarrow> frame_ref option \<Rightarrow> FrameSequence \<Rightarrow> error + FrameSequence" where
  "InsertFrame framenum aFrame fs =
     (if unat framenum \<le> GetNumFrames fs
      then Inr (fs\<lparr>mFrames := take (unat framenum) (mFrames fs)
                                @ \<lparr>mFrame = aFrame, mFrameData = nullptr\<rparr>
                                # drop (unat framenum) (mFrames fs)\<rparr>)
      else Inl OutOfRange)"

definition RemoveFrame :: "32 word \<Rightarrow> FrameSequence \<Rightarrow> world \<Rightarrow> error + (FrameSequence \<times> world)" where
  "RemoveFrame framenum fs w =
     (if unat framenum < GetNumFrames fs
      then (case unlock_if_data (mFrames fs ! unat framenum) w of
              Inl e \<Rightarrow> Inl e
            | Inr w1 \<Rightarrow>
                Inr (fs\<lparr>mFrames := take (unat framenum) (mFrames fs)
                                     @ drop (Suc (unat framenum)) (mFrames fs)\<rparr>, w1))
      else Inl OutOfRange)"

subsection \<open>Lifetimes: runs of operations on the slots of a memory\<close>

datatype op =
    Construct slot_ref "frame_ref option"
  | ConstructEmpty slot_ref
  | CopyConstruct slot_ref slot_ref
  | MoveConstruct slot_ref slot_ref
  | CopyAssign slot_ref slot_ref
  | MoveAssign slot_ref slot_ref
  | Activate slot_ref
  | ForgetFrame slot_ref
  | Retarget slot_ref "frame_ref option"
  | Destroy slot_ref
  | FramesChange "frame_ref \<Rightarrow> imgFrame"

text \<open>One operation. \<open>FramesChange\<close> is the world outside the slots: the frames may
  answer differently from then on.\<close>

fun step :: "op \<Rightarrow> world \<Rightarrow> error + world" where
  "step (Construct this frame) w = FrameDataPair_frame this frame w"
| "step (ConstructEmpty this) w = FrameDataPair_default this w"
| "step (CopyConstruct this aOther) w = FrameDataPair_copy this aOther w"
| "step (MoveConstruct this aOther) w = FrameDataPair_move this aOther w"
| "step (CopyAssign this aOther) w = copy_assign this aOther w"
| "step (MoveAssign this aOther) w = move_assign this aOther w"
| "step (Activate this) w = LockAndGetData this w"
| "step (ForgetFrame this) w =
     (case Forget this w of Inl e \<Rightarrow> Inl e | Inr (frame, w') \<Rightarrow> Inr w')"
| "step (Retarget this frame) w = SetFrame this frame w"
| "step (Destroy this) w = FrameDataPair_dtor this w"
| "step (FramesChange fs) w = Inr (w\<lparr>frames := fs\<rparr>)"

text \<open>The slot whose method runs: every call to a frame in the header is made through
  \<open>this->mFrame\<close>.\<close>

fun receiver :: "op \<Rightarrow> slot_ref option" where
  "receiver (Construct this frame) = Some this"
| "receiver (ConstructEmpty this) = Some this"
| "receiver (CopyConstruct this aOther) = Some this"
| "receiver (MoveConstruct this aOther) = Some this"
| "receiver (CopyAssign this aOther) = Some this"
| "receiver (MoveAssign this aOther) = Some this"
| "receiver (Activate this) = Some this"
| "receiver (ForgetFrame this) = Some this"
| "receiver (Retarget this frame) = Some this"
| "receiver (Destroy this) = Some this"
| "receiver (FramesChange fs) = None"

fun run :: "op list \<Rightarrow> world \<Rightarrow> error + world" where
  "run [] w = Inr w"
| "run (x # xs) w = (case step x w of Inl e \<Rightarrow> Inl e | Inr w' \<Rightarrow> run xs w')"

definition final_calls :: "op list \<Rightarrow> world \<Rightarrow> error + call list" where
  "final_calls xs w = (case run xs w of Inl e \<Rightarrow> Inl e | Inr w' \<Rightarrow> Inr (calls w'))"

text \<open>The run went through and no object is left at \<open>p\<close>.\<close>

definition ended :: "slot_ref \<Rightarrow> op list \<Rightarrow> world \<Rightarrow> bool" where
  "ended p xs w = (case run xs w of Inl e \<Rightarrow> False | Inr w' \<Rightarrow> slots w' p = None)"

fun is_lock :: "call \<Rightarrow> bool" where
  "is_lock (LockOk f) = True"
| "is_lock c = False"

fun is_unlock :: "call \<Rightarrow> bool" where
  "is_unlock (Unlock f) = True"
| "is_unlock c = False"

definition new_calls :: "world \<Rightarrow> world \<Rightarrow> call list" where
  "new_calls w w' = drop (length (calls w)) (calls w')"

definition active :: "world \<Rightarrow> slot_ref \<Rightarrow> bool" where
  "active w p = (case slots w p of None \<Rightarrow> False | Some s \<Rightarrow> mFrameData s \<noteq> nullptr)"

text \<open>What one step adds to the four counts of slot \<open>p\<close>: the successful locks and the
  unlocks that \<open>p\<close> issues, and the active views that a move brings into \<open>p\<close> or takes
  out of it.\<close>

definition locks_step :: "slot_ref \<Rightarrow> op \<Rightarrow> world \<Rightarrow> world \<Rightarrow> nat" where
  "locks_step p x w w' =
     (if receiver x = Some p then length (filter is_lock (new_calls w w')) else 0)"

definition unlocks_step :: "slot_ref \<Rightarrow> op \<Rightarrow> world \<Rightarrow> world \<Rightarrow> nat" where
  "unlocks_step p x w w' =
     (if receiver x = Some p then length (filter is_unlock (new_calls w w')) else 0)"

fun moved_in_step :: "slot_ref \<Rightarrow> op \<Rightarrow> world \<Rightarrow> world \<Rightarrow> nat" where
  "moved_in_step p (MoveConstruct this aOther) w w' = (if this = p \<and> active w aOther then 1 else 0)"
| "moved_in_step p (MoveAssign this aOther) w w' = (if this = p \<and> active w aOther then 1 else 0)"
| "moved_in_step p x w w' = 0"

fun moved_out_step :: "slot_ref \<Rightarrow> op \<Rightarrow> world \<Rightarrow> world \<Rightarrow> nat" where
  "moved_out_step p (MoveConstruct this aOther) w w' = (if aOther = p \<and> active w p then 1 else 0)"
| "moved_out_step p (MoveAssign this aOther) w w' = (if aOther = p \<and> active w p then 1 else 0)"
| "moved_out_step p x w w' = 0"

fun tally :: "(op \<Rightarrow> world \<Rightarrow> world \<Rightarrow> nat) \<Rightarrow> op list \<Rightarrow> world \<Rightarrow> nat" where
  "tally g [] w = 0"
| "tally g (x # xs) w =
     (case step x w of Inl e \<Rightarrow> 0 | Inr w' \<Rightarrow> g x w w' + tally g xs w')"

definition locks_issued :: "slot_ref \<Rightarrow> op list \<Rightarrow> world \<Rightarrow> nat" where
  "locks_issued p xs w = tally (locks_step p) xs w"

definition unlocks_issued :: "slot_ref \<Rightarrow> op list \<Rightarrow> world \<Rightarrow> nat" where
  "unlocks_issued p xs w = tally (unlocks_step p) xs w"

definition moved_in :: "slot_ref \<Rightarrow> op list \<Rightarrow> world \<Rightarrow> nat" where
  "moved_in p xs w = tally (moved_in_step p) xs w"

definition moved_out :: "slot_ref \<Rightarrow> op list \<Rightarrow> world \<Rightarrow> nat" where
  "moved_out p xs w = tally (moved_out_step p) xs w"

text \<open>A lock for the slot at \<open>p\<close> would hand back a pointer that is not null, if it
  succeeded.\<close>

definition lock_gives_data :: "world \<Rightarrow> slot_ref \<Rightarrow> bool" where
  "lock_gives_data w p =
     (case slots w p of
        None \<Rightarrow> True
      | Some s \<Rightarrow>
          (case mFrame s of
             None \<Rightarrow> True
           | Some f \<Rightarrow>
               if lock_succeeds (frames w f)
               then (if is_paletted (frames w f) then palette_data (frames w f)
                     else image_data (frames w f)) \<noteq> nullptr
               else True))"

text \<open>The uses of slot \<open>p\<close> that keep its books: \<open>LockAndGetData\<close> only while no view is
  active and only where a lock that succeeds gives data, and no assignment from another
  slot over an active view.\<close>

fun disciplined :: "slot_ref \<Rightarrow> op \<Rightarrow> world \<Rightarrow> bool" where
  "disciplined p (Activate this) w =
     (if this = p then \<not> active w p \<and> lock_gives_data w p else True)"
| "disciplined p (CopyAssign this aOther) w =
     (if this = p \<and> aOther \<noteq> p then \<not> active w p else True)"
| "disciplined p (MoveAssign this aOther) w =
     (if this = p then \<not> active w p else True)"
| "disciplined p x w = True"

fun disciplined_run :: "slot_ref \<Rightarrow> op list \<Rightarrow> world \<Rightarrow> bool" where
  "disciplined_run p [] w = True"
| "disciplined_run p (x # xs) w =
     (disciplined p x w \<and>
      (case step x w of Inl e \<Rightarrow> True | Inr w' \<Rightarrow> disciplined_run p xs w'))"

subsection \<open>Example frames and memories\<close>

text \<open>Frame 7 is direct-colour with its image at \<open>0x1000\<close>, frame 8 is paletted, frame 10
  locks and hands back a null pointer; every other frame refuses the lock.\<close>

definition mock_frames :: "frame_ref \<Rightarrow> imgFrame" where
  "mock_frames f =
     (if f = 7 then \<lparr>lock_succeeds = True, is_paletted = False, palette_data = 0, image_data = 4096\<rparr>
      else if f = 8 then \<lparr>lock_succeeds = True, is_paletted = True, palette_data = 8192, image_data = 12288\<rparr>
      else if f = 10 then \<lparr>lock_succeeds = True, is_paletted = False, palette_data = 0, image_data = 0\<rparr>
      else \<lparr>lock_succeeds = False, is_paletted = False, palette_data = 0, image_data = 0\<rparr>)"

definition w_init :: world where
  "w_init = \<lparr>slots = Map.empty, frames = mock_frames, calls = []\<rparr>"

text \<open>Slot 1 holds frame 7, slot 2 frame 8, slot 3 frame 9, slot 4 frame 10, slot 5 is
  empty; no view is active.\<close>

definition w_bound :: world where
  "w_bound = \<lparr>slots = [1 \<mapsto> \<lparr>mFrame = Some 7, mFrameData = nullptr\<rparr>,
                        2 \<mapsto> \<lparr>mFrame = Some 8, mFrameData = nullptr\<rparr>,
                        3 \<mapsto> \<lparr>mFrame = Some 9, mFrameData = nullptr\<rparr>,
                        4 \<mapsto> \<lparr>mFrame = Some 10, mFrameData = nullptr\<rparr>,
                        5 \<mapsto> \<lparr>mFrame = None, mFrameData = nullptr\<rparr>],
               frames = mock_frames, calls = []\<rparr>"

text \<open>As \<open>w_bound\<close>, after slot 1 has locked frame 7.\<close>

definition w_active :: world where
  "w_active = \<lparr>slots = [1 \<mapsto> \<lparr>mFrame = Some 7, mFrameData = 4096\<rparr>,
                         2 \<mapsto> \<lparr>mFrame = Some 8, mFrameData = nullptr\<rparr>,
                         5 \<mapsto> \<lparr>mFrame = None, mFrameData = nullptr\<rparr>],
                frames = mock_frames, calls = [LockOk 7]\<rparr>"

subsection \<open>Example lifetimes\<close>

text \<open>Slot 1 locks frame 7 and is then assigned from slot 2, by copy and by move; in the
  third run it is given a new frame by \<open>SetFrame\<close> instead.\<close>

definition copy_assign_over_view :: "op list" where
  "copy_assign_over_view =
     [Construct 1 (Some 7), Activate 1, Construct 2 (Some 8), CopyAssign 1 2, Destroy 1, Destroy 2]"

definition move_assign_over_view :: "op list" where
  "move_assign_over_view =
     [Construct 1 (Some 7), Activate 1, Construct 2 (Some 8), MoveAssign 1 2, Destroy 1, Destroy 2]"

definition set_frame_over_view :: "op list" where
  "set_frame_over_view =
     [Construct 1 (Some 7), Activate 1, Retarget 1 (Some 8), Destroy 1]"

text \<open>Slot 1 locks frame 7, slot 2 is move-constructed from it, and both are destroyed.\<close>

definition view_moved_out :: "op list" where
  "view_moved_out =
     [Construct 1 (Some 7), Activate 1, MoveConstruct 2 1, Destroy 1, Destroy 2]"

text \<open>A sequence of three frames.\<close>

definition three_frames :: FrameSequence where
  "three_frames = \<lparr>mFrames = [\<lparr>mFrame = Some 7, mFrameData = nullptr\<rparr>,
                               \<lparr>mFrame = Some 8, mFrameData = nullptr\<rparr>,
                               \<lparr>mFrame = Some 9, mFrameData = nullptr\<rparr>]\<rparr>"

section \<open>Properties\<close>

subsection \<open>Reading the memory after a call\<close>

lemma put_simps [simp]:
  "slots (put this s w) = (slots w)(this \<mapsto> s)"
  "frames (put this s w) = frames w"
  "calls (put this s w) = calls w"
  by (simp_all add: put_def)

lemma UnlockImageData_simps [simp]:
  "slots (UnlockImageData f w) = slots w"
  "frames (UnlockImageData f w) = frames w"
  "calls (UnlockImageData f w) = calls w @ [Unlock f]"
  by (simp_all add: UnlockImageData_def)

lemma new_calls_same [simp]: "calls w' = calls w \<Longrightarrow> new_calls w w' = []"
  by (simp add: new_calls_def)

lemma new_calls_app [simp]: "calls w' = calls w @ cs \<Longrightarrow> new_calls w w' = cs"
  by (simp add: new_calls_def)

lemma unlock_if_data_calls:
  "unlock_if_data s w = Inr w1 \<Longrightarrow>
     slots w1 = slots w \<and> frames w1 = frames w \<and>
     calls w1 = calls w @ (if mFrameData s \<noteq> nullptr then [Unlock (the (mFrame s))] else [])"
  by (auto simp: unlock_if_data_def split: if_splits option.splits)

lemmas method_defs =
  FrameDataPair_frame_def FrameDataPair_default_def FrameDataPair_copy_def
  FrameDataPair_move_def FrameDataPair_dtor_def copy_assign_def move_assign_def
  LockAndGetData_def Forget_def SetFrame_def unlock_if_data_def new_object_def
  LockImageData_def UnlockImageData_def GetIsPaletted_def GetPaletteData_def GetImageData_def
  put_def

subsection \<open>A view needs a frame\<close>

text \<open>
  No operation makes a slot whose data pointer is set while its handle is empty: the
  \<open>mFrame->UnlockImageData()\<close> of the destructor, of \<open>Forget\<close> and of \<open>SetFrame\<close> never
  meets a null \<open>mFrame\<close> in a memory that a run has built.
\<close>

lemma step_keeps_view_on_frame:
  assumes "step x w = Inr w'"
    and "\<forall>p s. slots w p = Some s \<longrightarrow> mFrameData s \<noteq> nullptr \<longrightarrow> mFrame s \<noteq> None"
  shows "\<forall>p s. slots w' p = Some s \<longrightarrow> mFrameData s \<noteq> nullptr \<longrightarrow> mFrame s \<noteq> None"
proof (cases x)
  case (Construct this frame)
  with assms show ?thesis
    by (auto simp: FrameDataPair_frame_def new_object_def split: if_splits)
next
  case (ConstructEmpty this)
  with assms show ?thesis
    by (auto simp: FrameDataPair_default_def new_object_def split: if_splits)
next
  case (CopyConstruct this aOther)
  with assms show ?thesis
    by (auto simp: FrameDataPair_copy_def new_object_def split: if_splits option.splits)
next
  case (MoveConstruct this aOther)
  with assms show ?thesis
    by (auto simp: FrameDataPair_move_def new_object_def split: if_splits option.splits)
next
  case (CopyAssign this aOther)
  with assms show ?thesis
    by (auto simp: copy_assign_def split: if_splits option.splits)
next
  case (MoveAssign this aOther)
  with assms show ?thesis
    by (auto simp: move_assign_def split: if_splits option.splits)
next
  case (Activate this)
  with assms show ?thesis
    by (auto simp: LockAndGetData_def LockImageData_def split: if_splits option.splits)
next
  case (ForgetFrame this)
  with assms show ?thesis
    by (auto simp: Forget_def split: if_splits option.splits sum.splits
        dest!: unlock_if_data_calls)
next
  case (Retarget this frame)
  with assms show ?thesis
    by (auto simp: SetFrame_def split: if_splits option.splits sum.splits
        dest!: unlock_if_data_calls)
next
  case (Destroy this)
  with assms show ?thesis
    by (auto simp: FrameDataPair_dtor_def split: if_splits option.splits sum.splits
        dest!: unlock_if_data_calls)
next
  case (FramesChange fs)
  with assms show ?thesis
    by auto
qed

lemma run_keeps_view_on_frame:
  "run xs w = Inr w' \<Longrightarrow>
   \<forall>p s. slots w p = Some s \<longrightarrow> mFrameData s \<noteq> nullptr \<longrightarrow> mFrame s \<noteq> None \<Longrightarrow>
   \<forall>p s. slots w' p = Some s \<longrightarrow> mFrameData s \<noteq> nullptr \<longrightarrow> mFrame s \<noteq> None"
proof (induction xs arbitrary: w)
  case Nil
  then show ?case by simp
next
  case (Cons x xs)
  from Cons.prems(1) obtain w1 where s: "step x w = Inr w1" and r: "run xs w1 = Inr w'"
    by (auto split: sum.splits)
  from Cons.IH [OF r step_keeps_view_on_frame [OF s Cons.prems(2)]] show ?case .
qed

subsection \<open>Releasing the lock of an active view\<close>

lemma dtor_unlocks_view_once:
  assumes "slots w this = Some s" and "mFrame s = Some f" and "mFrameData s \<noteq> nullptr"
  shows "\<exists>w'. FrameDataPair_dtor this w = Inr w' \<and> calls w' = calls w @ [Unlock f] \<and>
           slots w' this = None"
  using assms
  by (auto simp: FrameDataPair_dtor_def unlock_if_data_def)

lemma SetFrame_unlocks_view_once:
  assumes "slots w this = Some s" and "mFrame s = Some f" and "mFrameData s \<noteq> nullptr"
  shows "\<exists>w'. SetFrame this frame w = Inr w' \<and> calls w' = calls w @ [Unlock f] \<and>
           slots w' this = Some \<lparr>mFrame = frame, mFrameData = nullptr\<rparr>"
  using assms
  by (auto simp: SetFrame_def unlock_if_data_def)

lemma assignment_calls_no_frame:
  "copy_assign this aOther w = Inr w' \<Longrightarrow> calls w' = calls w"
  "move_assign this aOther w = Inr w' \<Longrightarrow> calls w' = calls w"
  by (auto simp: copy_assign_def move_assign_def split: option.splits if_splits)

text \<open>
  C1. A slot whose view is active should unlock its frame once when it is destroyed,
  assigned over from another slot, or given a frame by \<open>SetFrame\<close>. The destructor and
  \<open>SetFrame\<close> do so (the first two lemmas above). The two assignment operators
  overwrite \<open>mFrame\<close> and reset \<open>mFrameData\<close> and never call \<open>UnlockImageData\<close>: when
  slot 1 has locked frame 7 and is then assigned from slot 2, by copy or by move, frame 7
  is never unlocked, neither at the assignment nor when both slots are destroyed. The
  same lifetime with \<open>SetFrame\<close> in place of the assignment unlocks it.
\<close>

theorem assignment_over_view_keeps_lock:
  "final_calls copy_assign_over_view w_init = Inr [LockOk 7] \<and>
   final_calls move_assign_over_view w_init = Inr [LockOk 7] \<and>
   final_calls set_frame_over_view w_init = Inr [LockOk 7, Unlock 7]"
  by (simp add: final_calls_def copy_assign_over_view_def move_assign_over_view_def
      set_frame_over_view_def w_init_def mock_frames_def method_defs)

subsection \<open>The books of one slot\<close>

lemma step_balance:
  assumes "step x w = Inr w'" and "disciplined p x w"
  shows "locks_step p x w w' + moved_in_step p x w w' + of_bool (active w p)
           = unlocks_step p x w w' + moved_out_step p x w w' + of_bool (active w' p)"
proof (cases x)
  case (Construct this frame)
  with assms show ?thesis
    by (auto simp: FrameDataPair_frame_def new_object_def locks_step_def unlocks_step_def
        active_def split: if_splits)
next
  case (ConstructEmpty this)
  with assms show ?thesis
    by (auto simp: FrameDataPair_default_def new_object_def locks_step_def unlocks_step_def
        active_def split: if_splits)
next
  case (CopyConstruct this aOther)
  with assms show ?thesis
    by (auto simp: FrameDataPair_copy_def new_object_def locks_step_def unlocks_step_def
        active_def split: if_splits option.splits)
next
  case (MoveConstruct this aOther)
  with assms show ?thesis
    by (auto simp: FrameDataPair_move_def new_object_def locks_step_def unlocks_step_def
        active_def split: if_splits option.splits sum.splits)
next
  case (CopyAssign this aOther)
  with assms show ?thesis
    by (auto simp: copy_assign_def locks_step_def unlocks_step_def
        active_def split: if_splits option.splits)
next
  case (MoveAssign this aOther)
  with assms show ?thesis
    by (auto simp: move_assign_def locks_step_def unlocks_step_def
        active_def split: if_splits option.splits)
next
  case (Activate this)
  with assms show ?thesis
    by (auto simp: LockAndGetData_def LockImageData_def GetIsPaletted_def GetPaletteData_def
        GetImageData_def lock_gives_data_def locks_step_def unlocks_step_def
        active_def split: if_splits option.splits)
next
  case (ForgetFrame this)
  with assms show ?thesis
    by (auto simp: Forget_def locks_step_def unlocks_step_def
        active_def split: if_splits option.splits sum.splits dest!: unlock_if_data_calls)
next
  case (Retarget this frame)
  with assms show ?thesis
    by (auto simp: SetFrame_def locks_step_def unlocks_step_def
        active_def split: if_splits option.splits sum.splits dest!: unlock_if_data_calls)
next
  case (Destroy this)
  with assms show ?thesis
    by (auto simp: FrameDataPair_dtor_def locks_step_def unlocks_step_def
        active_def split: if_splits option.splits sum.splits dest!: unlock_if_data_calls)
next
  case (FramesChange fs)
  with assms show ?thesis
    by (auto simp: locks_step_def unlocks_step_def active_def)
qed

lemma run_balance:
  "run xs w = Inr w' \<Longrightarrow> disciplined_run p xs w \<Longrightarrow>
     locks_issued p xs w + moved_in p xs w + of_bool (active w p)
       = unlocks_issued p xs w + moved_out p xs w + of_bool (active w' p)"
proof (induction xs arbitrary: w)
  case Nil
  then show ?case
    by (simp add: locks_issued_def unlocks_issued_def moved_in_def moved_out_def)
next
  case (Cons x xs)
  from Cons.prems(1) obtain w1 where s: "step x w = Inr w1" and r: "run xs w1 = Inr w'"
    by (auto split: sum.splits)
  from Cons.prems(2) s have d: "disciplined p x w" and dr: "disciplined_run p xs w1"
    by auto
  note b = step_balance [OF s d]
  note ih = Cons.IH [OF r dr]
  from b ih s show ?case
    by (simp add: locks_issued_def unlocks_issued_def moved_in_def moved_out_def)
qed

text \<open>
  C2, as stated: in every lifetime of a slot, the successful locks the slot issued are as
  many as the unlocks it issued once it is destroyed. A move breaks this: slot 1 locks
  frame 7, slot 2 is move-constructed from slot 1 and takes the view with it, and slot 1
  is destroyed having issued one lock and no unlock (the unlock is slot 2's).
\<close>

theorem moved_out_lifetime_unbalanced:
  "ended 1 view_moved_out w_init \<and>
   locks_issued 1 view_moved_out w_init = 1 \<and>
   unlocks_issued 1 view_moved_out w_init = 0"
  by (simp add: ended_def locks_issued_def unlocks_issued_def locks_step_def unlocks_step_def
      new_calls_def view_moved_out_def w_init_def mock_frames_def method_defs)

text \<open>
  C2, amended. Take a run of operations on the slots of a memory, from a memory with no
  object at \<open>p\<close> to one with no object at \<open>p\<close>, in which \<open>LockAndGetData\<close> is called on
  \<open>p\<close> only while its view is inactive and only where a lock that succeeds hands back a
  pointer that is not null, and in which \<open>p\<close> is not assigned over from another slot
  while its view is active. Then the successful locks that \<open>p\<close> issued plus the active
  views moved into \<open>p\<close> are as many as the unlocks that \<open>p\<close> issued plus the active views
  moved out of \<open>p\<close>. The frames may change their answers between the operations.
\<close>

theorem disciplined_lifetime_balance:
  assumes "slots w p = None" and "ended p xs w" and "disciplined_run p xs w"
  shows "locks_issued p xs w + moved_in p xs w = unlocks_issued p xs w + moved_out p xs w"
proof -
  from assms(2) obtain w' where r: "run xs w = Inr w'" and e: "slots w' p = None"
    by (auto simp: ended_def split: sum.splits)
  from run_balance [OF r assms(3)] assms(1) e show ?thesis
    by (simp add: active_def)
qed

theorem disciplined_lifetime_balance_witness:
  "slots w_init 2 = None \<and> ended 2 view_moved_out w_init \<and>
   disciplined_run 2 view_moved_out w_init \<and>
   locks_issued 2 view_moved_out w_init + moved_in 2 view_moved_out w_init
     = unlocks_issued 2 view_moved_out w_init + moved_out 2 view_moved_out w_init \<and>
   moved_in 2 view_moved_out w_init = 1 \<and> unlocks_issued 2 view_moved_out w_init = 1 \<and>
   slots w_init 1 = None \<and> ended 1 view_moved_out w_init \<and>
   disciplined_run 1 view_moved_out w_init \<and>
   locks_issued 1 view_moved_out w_init + moved_in 1 view_moved_out w_init
     = unlocks_issued 1 view_moved_out w_init + moved_out 1 view_moved_out w_init \<and>
   locks_issued 1 view_moved_out w_init = 1 \<and> moved_out 1 view_moved_out w_init = 1"
proof -
  have a: "slots w_init 2 = None" "slots w_init 1 = None"
    by (simp_all add: w_init_def)
  have b: "ended 2 view_moved_out w_init" "ended 1 view_moved_out w_init"
    by (simp_all add: ended_def view_moved_out_def w_init_def mock_frames_def method_defs)
  have c: "disciplined_run 2 view_moved_out w_init" "disciplined_run 1 view_moved_out w_init"
    by (simp_all add: active_def lock_gives_data_def view_moved_out_def w_init_def
        mock_frames_def method_defs)
  have d: "moved_in 2 view_moved_out w_init = 1" "moved_out 1 view_moved_out w_init = 1"
    by (simp_all add: moved_in_def moved_out_def active_def view_moved_out_def w_init_def
        mock_frames_def method_defs)
  have e: "unlocks_issued 2 view_moved_out w_init = 1" "locks_issued 1 view_moved_out w_init = 1"
    by (simp_all add: unlocks_issued_def locks_issued_def unlocks_step_def locks_step_def
        new_calls_def view_moved_out_def w_init_def mock_frames_def method_defs)
  from a b c d e disciplined_lifetime_balance [OF a(1) b(1) c(1)]
    disciplined_lifetime_balance [OF a(2) b(2) c(2)]
  show ?thesis
    by simp
qed

subsection \<open>LockAndGetData\<close>

text \<open>
  C3. \<open>LockAndGetData\<close> with an empty handle, or with a frame that refuses the lock,
  returns without an error, unlocks nothing and leaves the slot as it was. So on a slot
  without a view \<open>HasFrameData\<close> is false afterwards, and no way out of the slot after
  the attempt (the destructor, \<open>Forget\<close>, \<open>SetFrame\<close>) unlocks a frame.
\<close>

theorem LockAndGetData_no_view:
  assumes "slots w this = Some s"
    and "mFrame s = None \<or> (\<exists>f. mFrame s = Some f \<and> \<not> lock_succeeds (frames w f))"
  shows "\<exists>w'. LockAndGetData this w = Inr w' \<and> slots w' = slots w \<and>
           filter is_unlock (calls w') = filter is_unlock (calls w) \<and>
           (mFrameData s = nullptr \<longrightarrow>
              HasFrameData this w' = Inr False \<and>
              (\<exists>w''. FrameDataPair_dtor this w' = Inr w'' \<and> calls w'' = calls w') \<and>
              (\<exists>frame w''. Forget this w' = Inr (frame, w'') \<and> calls w'' = calls w') \<and>
              (\<forall>frame. \<exists>w''. SetFrame this frame w' = Inr w'' \<and> calls w'' = calls w'))"
  using assms
  by (auto simp: LockAndGetData_def LockImageData_def HasFrameData_def FrameDataPair_dtor_def
      unlock_if_data_def Forget_def SetFrame_def)

theorem LockAndGetData_no_view_witness:
  "(\<exists>w'. LockAndGetData 3 w_bound = Inr w' \<and> slots w' = slots w_bound \<and>
      HasFrameData 3 w' = Inr False \<and> calls w' = [LockFailed 9] \<and>
      (\<exists>w''. FrameDataPair_dtor 3 w' = Inr w'' \<and> calls w'' = [LockFailed 9])) \<and>
   (\<exists>w'. LockAndGetData 5 w_bound = Inr w' \<and> slots w' = slots w_bound \<and>
      HasFrameData 5 w' = Inr False \<and> calls w' = [] \<and>
      (\<exists>w''. FrameDataPair_dtor 5 w' = Inr w'' \<and> calls w'' = []))"
  using LockAndGetData_no_view [of w_bound 3 "\<lparr>mFrame = Some 9, mFrameData = nullptr\<rparr>"]
    LockAndGetData_no_view [of w_bound 5 "\<lparr>mFrame = None, mFrameData = nullptr\<rparr>"]
  by (auto simp: w_bound_def mock_frames_def LockAndGetData_def LockImageData_def)

text \<open>
  C4. When the handle is not empty and the lock succeeds, \<open>LockAndGetData\<close> stores the
  frame's palette pointer if the frame says it is paletted at that moment, and its image
  pointer otherwise. The answer is read from the frame in the memory of the call: the
  slot has no field that could remember it.
\<close>

theorem LockAndGetData_pointer:
  assumes "slots w this = Some s" and "mFrame s = Some f" and "lock_succeeds (frames w f)"
  shows "\<exists>w'. LockAndGetData this w = Inr w' \<and>
           GetFrameData this w' =
             Inr (if is_paletted (frames w f) then palette_data (frames w f)
                  else image_data (frames w f)) \<and>
           GetFrame this w' = Inr (Some f) \<and>
           calls w' = calls w @ [LockOk f]"
  using assms
  by (simp add: LockAndGetData_def LockImageData_def GetIsPaletted_def GetPaletteData_def
      GetImageData_def GetFrameData_def GetFrame_def)

theorem LockAndGetData_pointer_witness:
  "slots w_bound 2 = Some \<lparr>mFrame = Some 8, mFrameData = nullptr\<rparr> \<and>
   lock_succeeds (frames w_bound 8) \<and>
   (\<exists>w'. LockAndGetData 2 w_bound = Inr w' \<and> GetFrameData 2 w' = Inr 8192 \<and>
      GetFrame 2 w' = Inr (Some 8) \<and> calls w' = [LockOk 8])"
  using LockAndGetData_pointer [of w_bound 2 "\<lparr>mFrame = Some 8, mFrameData = nullptr\<rparr>" 8]
  by (simp add: w_bound_def mock_frames_def)

subsection \<open>Copying and moving\<close>

text \<open>
  C5. A copy of a slot, made by the copy constructor or by copy-assignment to another
  slot, holds the frame of the source and has no view, also when the source has one; the
  source keeps what it had. No frame is called, so the outstanding locks of every frame
  stay as they were. Assigning a slot to itself changes nothing at all.
\<close>

theorem copy_keeps_handle_only:
  assumes "slots w aOther = Some other"
  shows "(slots w this = None \<longrightarrow>
            (\<exists>w'. FrameDataPair_copy this aOther w = Inr w' \<and>
               slots w' this = Some \<lparr>mFrame = mFrame other, mFrameData = nullptr\<rparr> \<and>
               HasFrameData this w' = Inr False \<and>
               slots w' aOther = Some other \<and> calls w' = calls w \<and>
               (\<forall>f. outstanding w' f = outstanding w f))) \<and>
         (slots w this \<noteq> None \<and> this \<noteq> aOther \<longrightarrow>
            (\<exists>w'. copy_assign this aOther w = Inr w' \<and>
               slots w' this = Some \<lparr>mFrame = mFrame other, mFrameData = nullptr\<rparr> \<and>
               HasFrameData this w' = Inr False \<and>
               slots w' aOther = Some other \<and> calls w' = calls w \<and>
               (\<forall>f. outstanding w' f = outstanding w f))) \<and>
         copy_assign aOther aOther w = Inr w"
  using assms
  by (auto simp: FrameDataPair_copy_def new_object_def copy_assign_def HasFrameData_def
      outstanding_def)

theorem copy_keeps_handle_only_witness:
  "(\<exists>w'. FrameDataPair_copy 9 1 w_active = Inr w' \<and>
      slots w' 9 = Some \<lparr>mFrame = Some 7, mFrameData = nullptr\<rparr> \<and>
      slots w' 1 = Some \<lparr>mFrame = Some 7, mFrameData = 4096\<rparr> \<and>
      outstanding w' 7 = 1 \<and> outstanding w_active 7 = 1) \<and>
   (\<exists>w'. copy_assign 2 1 w_active = Inr w' \<and>
      slots w' 2 = Some \<lparr>mFrame = Some 7, mFrameData = nullptr\<rparr> \<and>
      slots w' 1 = Some \<lparr>mFrame = Some 7, mFrameData = 4096\<rparr> \<and>
      outstanding w' 7 = 1)"
proof -
  have a: "slots w_active 1 = Some \<lparr>mFrame = Some 7, mFrameData = 4096\<rparr>"
    by (simp add: w_active_def)
  have b: "slots w_active 9 = None" "slots w_active 2 \<noteq> None \<and> (2::nat) \<noteq> 1"
    by (simp_all add: w_active_def)
  have c: "outstanding w_active 7 = 1"
    by (simp add: outstanding_def w_active_def)
  from copy_keeps_handle_only [OF a, of 9] copy_keeps_handle_only [OF a, of 2] b c
  show ?thesis
    by auto
qed

text \<open>
  C6. Moving out of a slot into another one, by the move constructor or by
  move-assignment, gives the destination the frame and the data pointer of the source,
  with the view if the source had one, and leaves the source with an empty handle and no
  view. No frame is called, so the outstanding locks of every frame stay as they were.
\<close>

theorem move_transfers_handle_and_view:
  assumes "slots w aOther = Some other" and "this \<noteq> aOther"
  shows "(slots w this = None \<longrightarrow>
            (\<exists>w'. FrameDataPair_move this aOther w = Inr w' \<and>
               slots w' this = Some \<lparr>mFrame = mFrame other, mFrameData = mFrameData other\<rparr> \<and>
               slots w' aOther = Some \<lparr>mFrame = None, mFrameData = nullptr\<rparr> \<and>
               calls w' = calls w \<and> (\<forall>f. outstanding w' f = outstanding w f))) \<and>
         (slots w this \<noteq> None \<longrightarrow>
            (\<exists>w'. move_assign this aOther w = Inr w' \<and>
               slots w' this = Some \<lparr>mFrame = mFrame other, mFrameData = mFrameData other\<rparr> \<and>
               slots w' aOther = Some \<lparr>mFrame = None, mFrameData = nullptr\<rparr> \<and>
               calls w' = calls w \<and> (\<forall>f. outstanding w' f = outstanding w f)))"
  using assms
  by (auto simp: FrameDataPair_move_def new_object_def move_assign_def outstanding_def)

theorem move_transfers_handle_and_view_witness:
  "(\<exists>w'. FrameDataPair_move 9 1 w_active = Inr w' \<and>
      slots w' 9 = Some \<lparr>mFrame = Some 7, mFrameData = 4096\<rparr> \<and>
      slots w' 1 = Some \<lparr>mFrame = None, mFrameData = nullptr\<rparr> \<and>
      HasFrameData 9 w' = Inr True \<and> HasFrameData 1 w' = Inr False \<and>
      outstanding w' 7 = 1 \<and> outstanding w_active 7 = 1) \<and>
   (\<exists>w'. move_assign 5 1 w_active = Inr w' \<and>
      slots w' 5 = Some \<lparr>mFrame = Some 7, mFrameData = 4096\<rparr> \<and>
      slots w' 1 = Some \<lparr>mFrame = None, mFrameData = nullptr\<rparr> \<and>
      HasFrameData 5 w' = Inr True \<and> HasFrameData 1 w' = Inr False \<and>
      outstanding w' 7 = 1)"
proof -
  have a: "slots w_active 1 = Some \<lparr>mFrame = Some 7, mFrameData = 4096\<rparr>"
    by (simp add: w_active_def)
  have b: "slots w_active 9 = None" "slots w_active 5 \<noteq> None" "(9::nat) \<noteq> 1" "(5::nat) \<noteq> 1"
    by (simp_all add: w_active_def)
  have c: "outstanding w_active 7 = 1"
    by (simp add: outstanding_def w_active_def)
  from move_transfers_handle_and_view [OF a b(3)] move_transfers_handle_and_view [OF a b(4)]
    b c
  show ?thesis
    by (auto simp: HasFrameData_def)
qed

subsection \<open>Forget and SetFrame\<close>

text \<open>
  C7. \<open>Forget\<close> unlocks the frame once if the view is active and not at all otherwise,
  returns the frame the slot held, and leaves the slot with an empty handle and no view.
  The slot is one whose view, if active, has a frame, as every slot of a run is.
\<close>

theorem Forget_releases_and_empties:
  assumes "slots w this = Some s" and "mFrameData s \<noteq> nullptr \<longrightarrow> mFrame s \<noteq> None"
  shows "\<exists>w'. Forget this w = Inr (mFrame s, w') \<and>
           slots w' this = Some \<lparr>mFrame = None, mFrameData = nullptr\<rparr> \<and>
           HasFrameData this w' = Inr False \<and>
           calls w' = calls w @ (if mFrameData s \<noteq> nullptr then [Unlock (the (mFrame s))] else [])"
  using assms
  by (auto simp: Forget_def unlock_if_data_def HasFrameData_def)

theorem Forget_releases_and_empties_witness:
  "(\<exists>w'. Forget 1 w_active = Inr (Some 7, w') \<and>
      slots w' 1 = Some \<lparr>mFrame = None, mFrameData = nullptr\<rparr> \<and>
      calls w' = [LockOk 7, Unlock 7]) \<and>
   (\<exists>w'. Forget 2 w_active = Inr (Some 8, w') \<and>
      slots w' 2 = Some \<lparr>mFrame = None, mFrameData = nullptr\<rparr> \<and>
      calls w' = [LockOk 7])"
  using Forget_releases_and_empties [of w_active 1 "\<lparr>mFrame = Some 7, mFrameData = 4096\<rparr>"]
    Forget_releases_and_empties [of w_active 2 "\<lparr>mFrame = Some 8, mFrameData = nullptr\<rparr>"]
  by (auto simp: w_active_def)

text \<open>
  C8. \<open>SetFrame\<close> with the frame that the slot already holds, on a slot whose view is
  active, unlocks that frame once and leaves the slot on the same frame without a view.
\<close>

theorem SetFrame_same_frame_cycles:
  assumes "slots w this = Some s" and "mFrame s = Some f" and "mFrameData s \<noteq> nullptr"
  shows "\<exists>w'. SetFrame this (Some f) w = Inr w' \<and> calls w' = calls w @ [Unlock f] \<and>
           slots w' this = Some \<lparr>mFrame = Some f, mFrameData = nullptr\<rparr> \<and>
           GetFrame this w' = Inr (Some f) \<and> HasFrameData this w' = Inr False"
  using assms
  by (auto simp: SetFrame_def unlock_if_data_def HasFrameData_def GetFrame_def)

theorem SetFrame_same_frame_cycles_witness:
  "\<exists>w'. SetFrame 1 (Some 7) w_active = Inr w' \<and> calls w' = [LockOk 7, Unlock 7] \<and>
      slots w' 1 = Some \<lparr>mFrame = Some 7, mFrameData = nullptr\<rparr> \<and>
      HasFrameData 1 w' = Inr False"
  using SetFrame_same_frame_cycles [of w_active 1 "\<lparr>mFrame = Some 7, mFrameData = 4096\<rparr>" 7]
  by (auto simp: w_active_def)

subsection \<open>The sequence\<close>

text \<open>
  C9. For a frame number \<open>i\<close> up to the size of a sequence, \<open>InsertFrame\<close> at \<open>i\<close> followed
  by \<open>RemoveFrame\<close> at \<open>i\<close> gives a sequence with the same frame at every position as
  before; the slot that is removed is the new one, which has no view, so no frame is
  unlocked, and the sequence and the memory are the ones before.
\<close>

theorem InsertFrame_RemoveFrame:
  assumes "unat i \<le> GetNumFrames s"
  shows "\<exists>s1 s2 w2. InsertFrame i f s = Inr s1 \<and> RemoveFrame i s1 w = Inr (s2, w2) \<and>
           map mFrame (mFrames s2) = map mFrame (mFrames s) \<and>
           GetNumFrames s2 = GetNumFrames s \<and> s2 = s \<and> w2 = w"
  using assms
  by (auto simp: InsertFrame_def RemoveFrame_def GetNumFrames_def unlock_if_data_def
      nth_append min_def)

theorem InsertFrame_RemoveFrame_witness:
  "unat (1 :: 32 word) \<le> GetNumFrames three_frames \<and>
   (\<exists>s1 s2 w2. InsertFrame 1 (Some 10) three_frames = Inr s1 \<and>
      map mFrame (mFrames s1) = [Some 7, Some 10, Some 8, Some 9] \<and>
      RemoveFrame 1 s1 w_active = Inr (s2, w2) \<and>
      map mFrame (mFrames s2) = [Some 7, Some 8, Some 9])"
proof -
  have a: "unat (1 :: 32 word) \<le> GetNumFrames three_frames"
    by (simp add: GetNumFrames_def three_frames_def)
  from InsertFrame_RemoveFrame [OF a, of "Some 10" w_active] a show ?thesis
    by (auto simp: InsertFrame_def three_frames_def)
qed

subsection \<open>HasFrameData\<close>

text \<open>
  C10. \<open>HasFrameData\<close> answers whether the data pointer is not null: whatever it returns
  is that, and it does return on a slot whose view, if active, has a frame. So after a
  \<open>LockAndGetData\<close> whose lock succeeds and whose accessor (palette or image, as the
  frame says) gives a null pointer, \<open>HasFrameData\<close> is false and the destructor does not
  unlock the frame that was locked.
\<close>

theorem HasFrameData_iff_data:
  "(slots w this = Some s \<longrightarrow>
      (\<forall>b. HasFrameData this w = Inr b \<longrightarrow> b = (mFrameData s \<noteq> nullptr)) \<and>
      ((mFrameData s \<noteq> nullptr \<longrightarrow> mFrame s \<noteq> None) \<longrightarrow>
         HasFrameData this w = Inr (mFrameData s \<noteq> nullptr))) \<and>
   (slots w this = Some s \<and> mFrame s = Some f \<and> lock_succeeds (frames w f) \<and>
    (if is_paletted (frames w f) then palette_data (frames w f) else image_data (frames w f))
      = nullptr \<longrightarrow>
      (\<exists>w'. LockAndGetData this w = Inr w' \<and> calls w' = calls w @ [LockOk f] \<and>
         GetFrameData this w' = Inr nullptr \<and> HasFrameData this w' = Inr False \<and>
         (\<exists>w''. FrameDataPair_dtor this w' = Inr w'' \<and> calls w'' = calls w')))"
  by (auto simp: HasFrameData_def LockAndGetData_def LockImageData_def GetIsPaletted_def
      GetPaletteData_def GetImageData_def GetFrameData_def FrameDataPair_dtor_def
      unlock_if_data_def split: if_splits)

theorem HasFrameData_iff_data_witness:
  "HasFrameData 1 w_active = Inr True \<and> HasFrameData 2 w_active = Inr False \<and>
   (\<exists>w'. LockAndGetData 4 w_bound = Inr w' \<and> calls w' = [LockOk 10] \<and>
      HasFrameData 4 w' = Inr False \<and>
      (\<exists>w''. FrameDataPair_dtor 4 w' = Inr w'' \<and> calls w'' = [LockOk 10]))"
  using HasFrameData_iff_data [of w_active 1 "\<lparr>mFrame = Some 7, mFrameData = 4096\<rparr>" 7]
    HasFrameData_iff_data [of w_active 2 "\<lparr>mFrame = Some 8, mFrameData = nullptr\<rparr>" 8]
    HasFrameData_iff_data [of w_bound 4 "\<lparr>mFrame = Some 10, mFrameData = nullptr\<rparr>" 10]
  by (auto simp: w_active_def w_bound_def mock_frames_def)

end
